theory Spec2Isabelle
  imports Complex_Main
begin

section \<open>Values of the JavaScript program\<close>

text \<open>
  The program (\<^verbatim>\<open>src/main.ts\<close>) is an edge worker: \<^verbatim>\<open>responseProvider\<close> reads the
  JSON body of the inbound request, asks a key generator for a key, asks a lookup service
  whether the key is known, relays the request to the origin and decides the response.

  A value produced by \<^verbatim>\<open>JSON.parse\<close> is a \<open>json\<close>. A parsed object is the list of its own
  properties in the order JavaScript enumerates them (names distinct); a string is the list
  of its code units (of the 256 that \<open>char\<close> has), so \<open>length\<close> is the \<^verbatim>\<open>.length\<close> of the
  program. A number is the rational it denotes. A JavaScript value that
  may also be \<^verbatim>\<open>undefined\<close> is a \<open>json option\<close>, with \<open>None\<close> for \<^verbatim>\<open>undefined\<close>.
\<close>

datatype json =
    JNull
  | JBool bool
  | JNum rat
  | JStr string
  | JArr "json list"
  | JObj "(string \<times> json) list"

type_synonym jsval = "json option"

text \<open>
  What a rejected promise or a thrown exception carries: a \<^verbatim>\<open>TypeError\<close> of the language,
  a failure raised by the platform's \<^verbatim>\<open>httpRequest\<close>, or the reason string of an explicit
  \<^verbatim>\<open>Promise.reject\<close>.
\<close>

datatype failure = TypeError | NetworkError | Rejected string

text \<open>
  A header object maps a name to an array of values. The program stores the result of
  \<^verbatim>\<open>JSON.stringify\<close> in such an array, and that result is \<^verbatim>\<open>undefined\<close> for the argument
  \<^verbatim>\<open>undefined\<close>, so an array element is a \<open>string option\<close>.
\<close>

type_synonym headers = "string \<rightharpoonup> string option list"

text \<open>
  The inbound request (\<^verbatim>\<open>EW.ResponseProviderRequest\<close>): \<open>req_json\<close> is the outcome of
  \<^verbatim>\<open>request.json()\<close>, \<open>None\<close> when that promise rejects (no body, or a body that is not
  JSON).
\<close>

record request =
  req_method :: string
  req_headers :: headers
  req_json :: "json option"

text \<open>
  The response object \<^verbatim>\<open>httpRequest\<close> resolves to: \<open>resp_json\<close> is the outcome of its
  \<^verbatim>\<open>json()\<close>, \<open>None\<close> when that promise rejects.
\<close>

record http_response =
  ok :: bool
  status :: nat
  resp_headers :: headers
  resp_body :: string
  resp_json :: "json option"

text \<open>
  One call of \<^verbatim>\<open>httpRequest(url, options)\<close>. The query of the lookup URL is built with
  \<^verbatim>\<open>URLSearchParams\<close>; it is kept as the list of appended name/value pairs, \<open>out_url\<close>
  being the text before the \<^verbatim>\<open>?\<close>.
\<close>

record out_request =
  out_url :: string
  out_query :: "(string \<times> string) list"
  out_method :: string
  out_headers :: "headers option"
  out_body :: "string option"

text \<open>
  The object built by \<^verbatim>\<open>createResponse(status, headers, body)\<close>, taken to hold its three
  arguments as given.
\<close>

record response =
  res_status :: nat
  res_headers :: headers
  res_body :: string

text \<open>
  What the program takes from outside the repository: the network behind \<^verbatim>\<open>httpRequest\<close>
  (a rejected promise is \<open>Inl\<close>), and three primitives of the language whose definitions
  are not part of the program: the text of a number and of a quoted string in
  \<^verbatim>\<open>JSON.stringify\<close>, and the comparison \<^verbatim>\<open>v > n\<close> for a \<open>v\<close> that is a string, an array or
  an object (it converts \<open>v\<close> to a number first, and may throw).
\<close>

record platform =
  httpRequest :: "out_request \<Rightarrow> failure + http_response"
  numberToString :: "rat \<Rightarrow> string"
  quoteJSONString :: "string \<Rightarrow> string"
  coerceGreater :: "json \<Rightarrow> nat \<Rightarrow> failure + bool"

section \<open>Constants of the program\<close>

definition headersToRemove :: "string list" where
  "headersToRemove =
     [''host'', ''content-length'', ''transfer-encoding'', ''connection'', ''vary'',
      ''accept-encoding'', ''content-encoding'', ''keep-alive'', ''Proxy-Authenticate'',
      ''proxy-authorization'', ''te'', ''trailers'', ''upgrade'']"

definition UNAME :: string where "UNAME = ''username''"
definition PASSWD :: string where "PASSWD = ''password''"
definition KEYGENERATOR_URL :: string where
  "KEYGENERATOR_URL = ''https://api.grinwis.com/NoMoreLeaksKey''"
definition KNOWNKEY_URL :: string where
  "KNOWNKEY_URL = ''https://api.grinwis.com/KnownKey''"
definition COLLECTION :: string where "COLLECTION = ''NoMoreLeaks''"
definition KEY :: string where "KEY = ''key''"
definition ORIGIN_URL :: string where
  "ORIGIN_URL = ''https://api.grinwis.com/headers''"
definition HIT_HEADER :: string where "HIT_HEADER = ''x-nomoreleaks-hit''"

definition warningPage :: response where
  "warningPage =
     \<lparr> res_status = 200,
       res_headers = [''Powered-By'' \<mapsto> [Some ''Akamai EdgeWorkers - No More Leaks Module'']],
       res_body = ''<html><body><p>Something wrong with your account, Please contact helpdesk.</p></body></html>'' \<rparr>"

section \<open>Primitives of the language\<close>

text \<open>\<^verbatim>\<open>JSON.stringify\<close> on a parsed value, and on a value that may be \<^verbatim>\<open>undefined\<close>.\<close>

fun join :: "string \<Rightarrow> string list \<Rightarrow> string" where
  "join sep [] = []"
| "join sep [x] = x"
| "join sep (x # y # ys) = x @ sep @ join sep (y # ys)"

fun stringify :: "platform \<Rightarrow> json \<Rightarrow> string" where
  "stringify pf JNull = ''null''"
| "stringify pf (JBool b) = (if b then ''true'' else ''false'')"
| "stringify pf (JNum n) = numberToString pf n"
| "stringify pf (JStr s) = quoteJSONString pf s"
| "stringify pf (JArr xs) = ''['' @ join '','' (map (stringify pf) xs) @ '']''"
| "stringify pf (JObj kvs) =
     ''{'' @ join '','' (map (\<lambda>kv. quoteJSONString pf (fst kv) @ '':'' @ stringify pf (snd kv)) kvs) @ ''}''"

definition stringifyVal :: "platform \<Rightarrow> jsval \<Rightarrow> string option" where
  "stringifyVal pf v = (case v of None \<Rightarrow> None | Some j \<Rightarrow> Some (stringify pf j))"

text \<open>
  Truthiness, as \<^verbatim>\<open>if (x)\<close> and \<^verbatim>\<open>x && y\<close> test it: \<^verbatim>\<open>undefined\<close>, \<^verbatim>\<open>null\<close>, \<^verbatim>\<open>false\<close>,
  zero and the empty string are falsy, everything else is truthy.
\<close>

fun truthy :: "jsval \<Rightarrow> bool" where
  "truthy None = False"
| "truthy (Some JNull) = False"
| "truthy (Some (JBool b)) = b"
| "truthy (Some (JNum n)) = (n \<noteq> 0)"
| "truthy (Some (JStr s)) = (s \<noteq> [])"
| "truthy (Some (JArr xs)) = True"
| "truthy (Some (JObj kvs)) = True"

text \<open>
  \<^verbatim>\<open>k in v\<close>, for the names the program asks for (\<^verbatim>\<open>username\<close>, \<^verbatim>\<open>password\<close>): an object
  has the property when it is one of its own, an array has neither, and the operator
  throws a \<^verbatim>\<open>TypeError\<close> when \<open>v\<close> is not an object (a number, a string, a boolean, \<^verbatim>\<open>null\<close>).
\<close>

fun hasProperty :: "string \<Rightarrow> json \<Rightarrow> failure + bool" where
  "hasProperty k (JObj kvs) = Inr (map_of kvs k \<noteq> None)"
| "hasProperty k (JArr xs) = Inr False"
| "hasProperty k v = Inl TypeError"

text \<open>
  \<^verbatim>\<open>v[k]\<close>, for the names the program reads (\<^verbatim>\<open>username\<close>, \<^verbatim>\<open>password\<close>, \<^verbatim>\<open>key\<close>,
  \<^verbatim>\<open>result\<close>), none of which a built-in prototype defines: the own property of an object,
  \<^verbatim>\<open>undefined\<close> on any other value, and a \<^verbatim>\<open>TypeError\<close> on \<^verbatim>\<open>null\<close>. Reading a property
  of \<^verbatim>\<open>undefined\<close> throws as well.
\<close>

fun getProp :: "json \<Rightarrow> string \<Rightarrow> failure + jsval" where
  "getProp JNull k = Inl TypeError"
| "getProp (JObj kvs) k = Inr (map_of kvs k)"
| "getProp v k = Inr None"

fun getPropVal :: "jsval \<Rightarrow> string \<Rightarrow> failure + jsval" where
  "getPropVal None k = Inl TypeError"
| "getPropVal (Some v) k = getProp v k"

text \<open>\<^verbatim>\<open>v[0]\<close>: the first element of an array, the first code unit of a string.\<close>

fun index0 :: "json \<Rightarrow> failure + jsval" where
  "index0 JNull = Inl TypeError"
| "index0 (JArr xs) = Inr (case xs of [] \<Rightarrow> None | x # _ \<Rightarrow> Some x)"
| "index0 (JStr s) = Inr (case s of [] \<Rightarrow> None | c # _ \<Rightarrow> Some (JStr [c]))"
| "index0 (JObj kvs) = Inr (map_of kvs ''0'')"
| "index0 v = Inr None"

text \<open>\<^verbatim>\<open>v.length\<close>: defined on strings and arrays, an ordinary property of an object.\<close>

fun getLength :: "jsval \<Rightarrow> failure + jsval" where
  "getLength None = Inl TypeError"
| "getLength (Some JNull) = Inl TypeError"
| "getLength (Some (JStr s)) = Inr (Some (JNum (of_nat (length s))))"
| "getLength (Some (JArr xs)) = Inr (Some (JNum (of_nat (length xs))))"
| "getLength (Some (JObj kvs)) = Inr (map_of kvs ''length'')"
| "getLength (Some v) = Inr None"

text \<open>
  \<^verbatim>\<open>x > n\<close> for a literal \<open>n\<close>: \<^verbatim>\<open>undefined\<close> converts to \<^verbatim>\<open>NaN\<close> and \<^verbatim>\<open>null\<close> to 0, so
  both compare false; a boolean converts to 0 or 1.
\<close>

fun greaterThan :: "platform \<Rightarrow> jsval \<Rightarrow> nat \<Rightarrow> failure + bool" where
  "greaterThan pf None n = Inr False"
| "greaterThan pf (Some JNull) n = Inr False"
| "greaterThan pf (Some (JNum r)) n = Inr (of_nat n < r)"
| "greaterThan pf (Some (JBool b)) n = Inr (n < (if b then 1 else 0))"
| "greaterThan pf (Some v) n = coerceGreater pf v n"

text \<open>
  \<^verbatim>\<open>a && b\<close> on booleans: \<open>b\<close> is not evaluated, so cannot throw, when \<open>a\<close> is false or
  has thrown. \<^verbatim>\<open>a && b && c\<close> is \<^verbatim>\<open>(a && b) && c\<close>.
\<close>

fun andAlso :: "failure + bool \<Rightarrow> failure + bool \<Rightarrow> failure + bool" where
  "andAlso (Inl e) b = Inl e"
| "andAlso (Inr False) b = Inr False"
| "andAlso (Inr True) b = b"

text \<open>
  The text of a status code in a template literal: its decimal digits (as JavaScript
  prints every whole number below \<open>10\<^sup>2\<^sup>1\<close>).
\<close>

fun decimal :: "nat \<Rightarrow> string" where
  "decimal n = (if n < 10 then [''0123456789'' ! n]
                else decimal (n div 10) @ [''0123456789'' ! (n mod 10)])"

declare decimal.simps [simp del]

text \<open>
  An object literal \<^verbatim>\<open>{k1: v1, k2: v2}\<close> as \<^verbatim>\<open>JSON.stringify\<close> sees it: a property whose
  value is \<^verbatim>\<open>undefined\<close> is left out.
\<close>

fun objectLiteral :: "(string \<times> jsval) list \<Rightarrow> (string \<times> json) list" where
  "objectLiteral [] = []"
| "objectLiteral ((k, None) # ps) = objectLiteral ps"
| "objectLiteral ((k, Some v) # ps) = (k, v) # objectLiteral ps"

section \<open>The program\<close>

subsection \<open>Body validation (lines 64 to 73)\<close>

definition parsedBody :: "request \<Rightarrow> json" where
  "parsedBody request = (case req_json request of None \<Rightarrow> JNull | Some b \<Rightarrow> b)"

definition hasBody :: "json \<Rightarrow> bool" where
  "hasBody body = (body \<noteq> JNull)"

definition hasCredentials :: "json \<Rightarrow> failure + bool" where
  "hasCredentials body =
     andAlso (andAlso (Inr (hasBody body)) (hasProperty UNAME body)) (hasProperty PASSWD body)"

definition lengthGreater :: "platform \<Rightarrow> json \<Rightarrow> string \<Rightarrow> nat \<Rightarrow> failure + bool" where
  "lengthGreater pf body k n =
     (case getProp body k of
        Inl e \<Rightarrow> Inl e
      | Inr v \<Rightarrow> (case getLength v of Inl e \<Rightarrow> Inl e | Inr l \<Rightarrow> greaterThan pf l n))"

definition bodyIsValid :: "platform \<Rightarrow> json \<Rightarrow> failure + bool" where
  "bodyIsValid pf body =
     andAlso (andAlso (hasCredentials body) (lengthGreater pf body UNAME 1))
       (lengthGreater pf body PASSWD 2)"

subsection \<open>The key generator client (lines 130 to 159)\<close>

text \<open>
  Every function that calls \<^verbatim>\<open>httpRequest\<close> returns the calls it made, in order, with its
  result. Calls of the logger write to a side channel only and are left out.

  \<^verbatim>\<open>response[KEY].substring(0, 5)\<close> throws unless \<^verbatim>\<open>response[KEY]\<close> is a string; the
  \<^verbatim>\<open>catch\<close> turns every exception of the \<^verbatim>\<open>try\<close> block into \<^verbatim>\<open>null\<close> (\<open>None\<close>).
\<close>

definition keyGeneratorCall :: "platform \<Rightarrow> json \<Rightarrow> out_request" where
  "keyGeneratorCall pf requestBody =
     \<lparr> out_url = KEYGENERATOR_URL, out_query = [], out_method = ''POST'',
       out_headers = None, out_body = Some (stringify pf requestBody) \<rparr>"

definition getKeyFromKeyGenerator :: "platform \<Rightarrow> json \<Rightarrow> out_request list \<times> string option" where
  "getKeyFromKeyGenerator pf requestBody =
     ([keyGeneratorCall pf requestBody],
      (case httpRequest pf (keyGeneratorCall pf requestBody) of
         Inl error \<Rightarrow> None
       | Inr result \<Rightarrow>
           if ok result then
             (case resp_json result of
                None \<Rightarrow> None
              | Some response \<Rightarrow>
                  (case getProp response KEY of
                     Inr (Some (JStr k)) \<Rightarrow> Some k
                   | _ \<Rightarrow> None))
           else None))"

subsection \<open>The key lookup client (lines 163 to 201)\<close>

text \<open>
  In the success branch the function returns \<^verbatim>\<open>response[0]["result"]\<close> as it is; an
  exception on the way (\<^verbatim>\<open>json()\<close> rejecting, \<^verbatim>\<open>response\<close> being \<^verbatim>\<open>null\<close>, \<^verbatim>\<open>response[0]\<close>
  being \<^verbatim>\<open>undefined\<close> or \<^verbatim>\<open>null\<close>) is caught and gives \<^verbatim>\<open>false\<close>.
\<close>

definition keyExistsCall :: "platform \<Rightarrow> json \<Rightarrow> out_request" where
  "keyExistsCall pf bindvars =
     \<lparr> out_url = KNOWNKEY_URL, out_query = [(''bindVars'', stringify pf bindvars)],
       out_method = ''GET'', out_headers = None, out_body = None \<rparr>"

definition keyExists :: "platform \<Rightarrow> json \<Rightarrow> out_request list \<times> jsval" where
  "keyExists pf bindvars =
     ([keyExistsCall pf bindvars],
      (case httpRequest pf (keyExistsCall pf bindvars) of
         Inl error \<Rightarrow> Some (JBool False)
       | Inr result \<Rightarrow>
           if ok result then
             (case resp_json result of
                None \<Rightarrow> Some (JBool False)
              | Some response \<Rightarrow>
                  (case index0 response of
                     Inl error \<Rightarrow> Some (JBool False)
                   | Inr first \<Rightarrow>
                       (case getPropVal first ''result'' of
                          Inl error \<Rightarrow> Some (JBool False)
                        | Inr r \<Rightarrow> r)))
           else Some (JBool False)))"

subsection \<open>The origin relay (lines 203 to 224)\<close>

text \<open>\<^verbatim>\<open>delete requestHeaders[element]\<close> for each element of the list, by exact name.\<close>

definition removeHeaders :: "headers \<Rightarrow> headers" where
  "removeHeaders requestHeaders =
     fold (\<lambda>element hs. hs(element := None)) headersToRemove requestHeaders"

text \<open>
  The header object after line 213: \<open>hit\<close> is the value of \<^verbatim>\<open>JSON.stringify(knowKey)\<close>,
  stored under the literal name \<^verbatim>\<open>x-nomoreleaks-hit\<close> (\<open>HIT_HEADER\<close>).
\<close>

definition relayedHeaders :: "headers \<Rightarrow> string option \<Rightarrow> headers" where
  "relayedHeaders requestHeaders hit = (removeHeaders requestHeaders)(HIT_HEADER \<mapsto> [hit])"

definition originCall :: "platform \<Rightarrow> request \<Rightarrow> json \<Rightarrow> jsval \<Rightarrow> out_request" where
  "originCall pf request body knowKey =
     \<lparr> out_url = ORIGIN_URL, out_query = [], out_method = req_method request,
       out_headers = Some (relayedHeaders (req_headers request) (stringifyVal pf knowKey)),
       out_body = Some (stringify pf body) \<rparr>"

definition originRequest ::
  "platform \<Rightarrow> request \<Rightarrow> json \<Rightarrow> jsval \<Rightarrow> out_request list \<times> (failure + http_response)" where
  "originRequest pf request body knowKey =
     ([originCall pf request body knowKey], httpRequest pf (originCall pf request body knowKey))"

subsection \<open>The orchestrator (lines 61 to 127)\<close>

text \<open>
  Lines 67 to 97: the value of \<^verbatim>\<open>knownKey\<close> when the origin is called, with the calls made
  so far. An exception thrown while \<^verbatim>\<open>bodyIsValid\<close> is computed is not caught, and rejects
  the promise of \<^verbatim>\<open>responseProvider\<close>.
\<close>

definition bindVars :: "string \<Rightarrow> json" where
  "bindVars key = JObj [(''@collection'', JStr COLLECTION), (''key'', JStr key)]"

definition lookupStage :: "platform \<Rightarrow> string option \<Rightarrow> out_request list \<times> jsval" where
  "lookupStage pf key =
     (case key of
        None \<Rightarrow> ([], Some (JBool False))
      | Some k \<Rightarrow> if k \<noteq> [] then keyExists pf (bindVars k) else ([], Some (JBool False)))"

definition knownKeyStage :: "platform \<Rightarrow> json \<Rightarrow> failure + out_request list \<times> jsval" where
  "knownKeyStage pf body =
     (case bodyIsValid pf body of
        Inl e \<Rightarrow> Inl e
      | Inr False \<Rightarrow> Inr ([], Some (JBool False))
      | Inr True \<Rightarrow>
          (case getProp body UNAME of
             Inl e \<Rightarrow> Inl e
           | Inr uname \<Rightarrow>
               (case getProp body PASSWD of
                  Inl e \<Rightarrow> Inl e
                | Inr passwd \<Rightarrow>
                    (let requestBody = JObj (objectLiteral [(''uname'', uname), (''passwd'', passwd)]);
                         generated = getKeyFromKeyGenerator pf requestBody;
                         looked = lookupStage pf (snd generated)
                     in Inr (fst generated @ fst looked, snd looked)))))"

text \<open>Lines 105 to 126: the response, or the rejection, once the origin has answered.\<close>

definition decide :: "jsval \<Rightarrow> http_response \<Rightarrow> failure + response" where
  "decide knownKey originResponse =
     (if truthy knownKey \<and> ok originResponse then Inr warningPage
      else if ok originResponse then
        Inr \<lparr> res_status = status originResponse,
              res_headers = resp_headers originResponse,
              res_body = resp_body originResponse \<rparr>
      else Inl (Rejected (''failed sub-request: '' @ decimal (status originResponse))))"

definition responseProvider :: "platform \<Rightarrow> request \<Rightarrow> out_request list \<times> (failure + response)" where
  "responseProvider pf request =
     (let body = parsedBody request in
      case knownKeyStage pf body of
        Inl e \<Rightarrow> ([], Inl e)
      | Inr (calls, knownKey) \<Rightarrow>
          (let relay = originRequest pf request body knownKey in
           (calls @ fst relay,
            (case snd relay of
               Inl e \<Rightarrow> Inl e
             | Inr originResponse \<Rightarrow> decide knownKey originResponse))))"

section \<open>What the specification says, for comparison\<close>

text \<open>
  The specification describes the header filter as case-insensitive over thirteen names.
  \<open>filteredAsSpecified\<close> follows its words; it is compared with \<open>removeHeaders\<close> below.
  \<open>lowerCase\<close> folds the letters A to Z.
\<close>

definition lowerChar :: "char \<Rightarrow> char" where
  "lowerChar c =
     (case map_of (zip ''ABCDEFGHIJKLMNOPQRSTUVWXYZ'' ''abcdefghijklmnopqrstuvwxyz'') c of
        None \<Rightarrow> c
      | Some l \<Rightarrow> l)"

definition lowerCase :: "string \<Rightarrow> string" where
  "lowerCase s = map lowerChar s"

definition denyListOfSpec :: "string list" where
  "denyListOfSpec =
     [''host'', ''content-length'', ''transfer-encoding'', ''connection'', ''vary'',
      ''accept-encoding'', ''content-encoding'', ''keep-alive'', ''proxy-authenticate'',
      ''proxy-authorization'', ''te'', ''trailers'', ''upgrade'']"

definition filteredAsSpecified :: "headers \<Rightarrow> headers" where
  "filteredAsSpecified hs = (\<lambda>n. if lowerCase n \<in> set denyListOfSpec then None else hs n)"

text \<open>
  The failures of the key generator call that the specification lists: the call itself
  fails, the status is not a success, the reply is not JSON, the reply has no \<^verbatim>\<open>key\<close>.
\<close>

fun keyGeneratorFailed :: "failure + http_response \<Rightarrow> bool" where
  "keyGeneratorFailed (Inl error) = True"
| "keyGeneratorFailed (Inr result) =
     (if ok result then
        (case resp_json result of
           None \<Rightarrow> True
         | Some response \<Rightarrow> (case getProp response KEY of Inr (Some k) \<Rightarrow> False | _ \<Rightarrow> True))
      else True)"

section \<open>Test doubles for the scenarios\<close>

text \<open>
  The scenarios of the specification run the program against substitutable fakes. The
  network answers by URL with three fixed outcomes. The three language primitives are
  the real ones on what the scenarios contain: non-negative whole numbers, strings without
  quotes, backslashes or control characters, and no comparison of a string, array or object
  with a number.
\<close>

definition scenarioPlatform ::
  "(failure + http_response) \<Rightarrow> (failure + http_response) \<Rightarrow> (failure + http_response) \<Rightarrow> platform" where
  "scenarioPlatform keygen lookup origin =
     \<lparr> httpRequest = (\<lambda>rq. if out_url rq = KEYGENERATOR_URL then keygen
                           else if out_url rq = KNOWNKEY_URL then lookup else origin),
       numberToString = (\<lambda>r. decimal (nat \<lfloor>r\<rfloor>)),
       quoteJSONString = (\<lambda>s. CHR 0x22 # s @ [CHR 0x22]),
       coerceGreater = (\<lambda>v n. Inr False) \<rparr>"

definition reply :: "nat \<Rightarrow> string \<Rightarrow> json option \<Rightarrow> failure + http_response" where
  "reply code text parsed =
     Inr \<lparr> ok = (200 \<le> code \<and> code < 300), status = code,
           resp_headers = [''content-type'' \<mapsto> [Some ''text/plain'']],
           resp_body = text, resp_json = parsed \<rparr>"

definition loginRequest :: "json option \<Rightarrow> request" where
  "loginRequest parsed =
     \<lparr> req_method = ''POST'',
       req_headers = [''host'' \<mapsto> [Some ''shop.example''], ''accept'' \<mapsto> [Some ''*/*'']],
       req_json = parsed \<rparr>"

definition credentials :: "string \<Rightarrow> string \<Rightarrow> json" where
  "credentials u p = JObj [(''username'', JStr u), (''password'', JStr p)]"

definition keyReply :: "failure + http_response" where
  "keyReply = reply 200 [] (Some (JObj [(''key'', JStr ''XYZ123'')]))"

definition lookupReply :: "json \<Rightarrow> failure + http_response" where
  "lookupReply first = reply 200 [] (Some (JArr [first]))"

definition scenarioHit :: platform where
  "scenarioHit = scenarioPlatform keyReply (lookupReply (JObj [(''result'', JBool True)])) (reply 200 ''OK'' None)"

definition scenarioNoHit :: platform where
  "scenarioNoHit = scenarioPlatform keyReply (lookupReply (JObj [(''result'', JBool False)])) (reply 200 ''OK'' None)"

definition scenarioOriginDown :: platform where
  "scenarioOriginDown = scenarioPlatform keyReply (lookupReply (JObj [(''result'', JBool False)])) (reply 503 [] None)"

definition scenarioGeneratorDown :: platform where
  "scenarioGeneratorDown = scenarioPlatform (reply 500 [] None) (lookupReply (JObj [(''result'', JBool True)])) (reply 200 ''OK'' None)"

definition proxyRequest :: "string \<Rightarrow> request" where
  "proxyRequest m =
     \<lparr> req_method = m,
       req_headers = [''host'' \<mapsto> [Some ''shop.example''],
                      ''proxy-authenticate'' \<mapsto> [Some ''Basic'']],
       req_json = None \<rparr>"

lemmas program_defs =
  responseProvider_def knownKeyStage_def parsedBody_def bodyIsValid_def hasCredentials_def
  hasBody_def lengthGreater_def getKeyFromKeyGenerator_def keyGeneratorCall_def
  lookupStage_def keyExists_def keyExistsCall_def bindVars_def originRequest_def
  originCall_def decide_def stringifyVal_def
  UNAME_def PASSWD_def KEY_def KEYGENERATOR_URL_def KNOWNKEY_URL_def ORIGIN_URL_def

lemmas scenario_defs =
  scenarioPlatform_def reply_def loginRequest_def credentials_def keyReply_def lookupReply_def
  scenarioHit_def scenarioNoHit_def scenarioOriginDown_def scenarioGeneratorDown_def

section \<open>Shape of a run\<close>

text \<open>
  Once \<^verbatim>\<open>knownKey\<close> is settled, a run makes exactly one more call, to the origin, and
  the result is decided from its answer; an exception before that ends the run with the
  calls made so far.
\<close>

lemma responseProvider_after_stage:
  assumes "knownKeyStage pf (parsedBody request) = Inr (calls, knownKey)"
  shows "responseProvider pf request =
           (calls @ [originCall pf request (parsedBody request) knownKey],
            (case httpRequest pf (originCall pf request (parsedBody request) knownKey) of
               Inl e \<Rightarrow> Inl e
             | Inr originResponse \<Rightarrow> decide knownKey originResponse))"
  using assms by (simp add: responseProvider_def originRequest_def Let_def)

lemma responseProvider_stage_error:
  assumes "knownKeyStage pf (parsedBody request) = Inl e"
  shows "responseProvider pf request = ([], Inl e)"
  using assms by (simp add: responseProvider_def Let_def)

lemma knownKeyStage_invalid:
  assumes "bodyIsValid pf body = Inr False"
  shows "knownKeyStage pf body = Inr ([], Some (JBool False))"
  using assms by (simp add: knownKeyStage_def)

lemma knownKeyStage_error:
  assumes "bodyIsValid pf body = Inl e"
  shows "knownKeyStage pf body = Inl e"
  using assms by (simp add: knownKeyStage_def)

lemma bodyIsValid_null: "bodyIsValid pf JNull = Inr False"
  by (simp add: bodyIsValid_def hasCredentials_def hasBody_def)

lemma scenario_stage:
  "knownKeyStage (scenarioPlatform keyReply (lookupReply first) origin) (credentials ''ab'' ''abc'')
     = Inr ([keyGeneratorCall (scenarioPlatform keyReply (lookupReply first) origin)
               (JObj [(''uname'', JStr ''ab''), (''passwd'', JStr ''abc'')]),
             keyExistsCall (scenarioPlatform keyReply (lookupReply first) origin) (bindVars ''XYZ123'')],
            (case getProp first ''result'' of Inl e \<Rightarrow> Some (JBool False) | Inr r \<Rightarrow> r))"
  by (simp add: program_defs scenario_defs)

lemma scenario_origin:
  "httpRequest (scenarioPlatform keygen lookup origin)
     (originCall (scenarioPlatform keygen lookup origin) request body knownKey) = origin"
  by (simp add: program_defs scenario_defs)

section \<open>The response decision\<close>

text \<open>
  Claim C1. Whenever the leak flag \<^verbatim>\<open>knownKey\<close> is true (any truthy value, \<^verbatim>\<open>true\<close> among
  them) when the origin is called and the origin answers with a successful response,
  \<^verbatim>\<open>responseProvider\<close> resolves to a response with status 200, the marker header
  \<^verbatim>\<open>Powered-By\<close> and the fixed warning page as its body; nothing of the origin's response
  is in it.
\<close>

theorem leak_hit_gives_warning_page:
  assumes "knownKeyStage pf (parsedBody request) = Inr (calls, knownKey)"
    and "truthy knownKey"
    and "httpRequest pf (originCall pf request (parsedBody request) knownKey) = Inr originResponse"
    and "ok originResponse"
  shows "snd (responseProvider pf request) =
           Inr \<lparr> res_status = 200,
                 res_headers = [''Powered-By'' \<mapsto> [Some ''Akamai EdgeWorkers - No More Leaks Module'']],
                 res_body = ''<html><body><p>Something wrong with your account, Please contact helpdesk.</p></body></html>'' \<rparr>"
  using assms by (simp add: responseProvider_after_stage decide_def warningPage_def)

text \<open>
  The first scenario of the specification: credentials \<^verbatim>\<open>ab\<close>/\<^verbatim>\<open>abc\<close>, key \<^verbatim>\<open>XYZ123\<close>,
  lookup result \<^verbatim>\<open>true\<close>, origin status 200.
\<close>

theorem leak_hit_gives_warning_page_witness:
  "knownKeyStage scenarioHit (credentials ''ab'' ''abc'')
     = Inr ([keyGeneratorCall scenarioHit (JObj [(''uname'', JStr ''ab''), (''passwd'', JStr ''abc'')]),
             keyExistsCall scenarioHit (bindVars ''XYZ123'')],
            Some (JBool True))
   \<and> snd (responseProvider scenarioHit (loginRequest (Some (credentials ''ab'' ''abc''))))
     = Inr warningPage"
proof -
  let ?rq = "loginRequest (Some (credentials ''ab'' ''abc''))"
  let ?calls = "[keyGeneratorCall scenarioHit (JObj [(''uname'', JStr ''ab''), (''passwd'', JStr ''abc'')]),
                 keyExistsCall scenarioHit (bindVars ''XYZ123'')]"
  let ?origin = "\<lparr> ok = True, status = 200, resp_headers = [''content-type'' \<mapsto> [Some ''text/plain'']],
                    resp_body = ''OK'', resp_json = None \<rparr>"
  have body: "parsedBody ?rq = credentials ''ab'' ''abc''"
    by (simp add: parsedBody_def loginRequest_def)
  have stage: "knownKeyStage scenarioHit (parsedBody ?rq) = Inr (?calls, Some (JBool True))"
    unfolding body scenarioHit_def by (simp add: scenario_stage)
  have hit: "truthy (Some (JBool True))"
    by simp
  have origin: "httpRequest scenarioHit (originCall scenarioHit ?rq (parsedBody ?rq) (Some (JBool True)))
                  = Inr ?origin"
    unfolding scenarioHit_def by (simp add: scenario_origin reply_def)
  have success: "ok ?origin"
    by simp
  from leak_hit_gives_warning_page [OF stage hit origin success] stage
  show ?thesis
    by (simp add: body warningPage_def)
qed

text \<open>
  Claim C7. Whenever the leak flag is false (any falsy value) when the origin is called and
  the origin answers with a successful response, \<^verbatim>\<open>responseProvider\<close> resolves to a
  response made of the origin's status, headers and body, unchanged.
\<close>

theorem no_hit_passes_origin_response:
  assumes "knownKeyStage pf (parsedBody request) = Inr (calls, knownKey)"
    and "\<not> truthy knownKey"
    and "httpRequest pf (originCall pf request (parsedBody request) knownKey) = Inr originResponse"
    and "ok originResponse"
  shows "snd (responseProvider pf request) =
           Inr \<lparr> res_status = status originResponse,
                 res_headers = resp_headers originResponse,
                 res_body = resp_body originResponse \<rparr>"
  using assms by (simp add: responseProvider_after_stage decide_def)

text \<open>
  The second scenario of the specification: lookup result \<^verbatim>\<open>false\<close>, origin status 200
  with body \<^verbatim>\<open>OK\<close>.
\<close>

theorem no_hit_passes_origin_response_witness:
  "knownKeyStage scenarioNoHit (credentials ''ab'' ''abc'')
     = Inr ([keyGeneratorCall scenarioNoHit (JObj [(''uname'', JStr ''ab''), (''passwd'', JStr ''abc'')]),
             keyExistsCall scenarioNoHit (bindVars ''XYZ123'')],
            Some (JBool False))
   \<and> snd (responseProvider scenarioNoHit (loginRequest (Some (credentials ''ab'' ''abc''))))
     = Inr \<lparr> res_status = 200, res_headers = [''content-type'' \<mapsto> [Some ''text/plain'']],
             res_body = ''OK'' \<rparr>"
proof -
  let ?rq = "loginRequest (Some (credentials ''ab'' ''abc''))"
  let ?calls = "[keyGeneratorCall scenarioNoHit (JObj [(''uname'', JStr ''ab''), (''passwd'', JStr ''abc'')]),
                 keyExistsCall scenarioNoHit (bindVars ''XYZ123'')]"
  let ?origin = "\<lparr> ok = True, status = 200, resp_headers = [''content-type'' \<mapsto> [Some ''text/plain'']],
                    resp_body = ''OK'', resp_json = None \<rparr>"
  have body: "parsedBody ?rq = credentials ''ab'' ''abc''"
    by (simp add: parsedBody_def loginRequest_def)
  have stage: "knownKeyStage scenarioNoHit (parsedBody ?rq) = Inr (?calls, Some (JBool False))"
    unfolding body scenarioNoHit_def by (simp add: scenario_stage)
  have miss: "\<not> truthy (Some (JBool False))"
    by simp
  have origin: "httpRequest scenarioNoHit (originCall scenarioNoHit ?rq (parsedBody ?rq) (Some (JBool False)))
                  = Inr ?origin"
    unfolding scenarioNoHit_def by (simp add: scenario_origin reply_def)
  have success: "ok ?origin"
    by simp
  from no_hit_passes_origin_response [OF stage miss origin success] stage
  show ?thesis
    by (simp add: body)
qed

text \<open>
  The decimal text determines the number, so a rejection reason that ends with the text of
  a status code identifies that code.
\<close>

lemma digit_inj:
  assumes "a < 10" and "b < 10" and "''0123456789'' ! a = ''0123456789'' ! b"
  shows "a = b"
proof -
  have "distinct ''0123456789''"
    by simp
  with assms show ?thesis
    by (simp add: nth_eq_iff_index_eq)
qed

lemma decimal_not_empty: "decimal n \<noteq> []"
  by (subst decimal.simps) simp

lemma decimal_inj: "decimal m = decimal n \<Longrightarrow> m = n"
proof (induction m arbitrary: n rule: decimal.induct)
  case (1 m)
  show ?case
  proof (cases "m < 10")
    case small: True
    show ?thesis
    proof (cases "n < 10")
      case True
      with small "1.prems" show ?thesis
        by (subst (asm) (1 2) decimal.simps) (simp add: digit_inj)
    next
      case False
      with small "1.prems" have "decimal (n div 10) = []"
        by (subst (asm) (1 2) decimal.simps) simp
      then show ?thesis
        by (simp add: decimal_not_empty)
    qed
  next
    case large: False
    show ?thesis
    proof (cases "n < 10")
      case True
      with large "1.prems" have "decimal (m div 10) = []"
        by (subst (asm) (1 2) decimal.simps) simp
      then show ?thesis
        by (simp add: decimal_not_empty)
    next
      case False
      with large "1.prems"
      have eq: "decimal (m div 10) = decimal (n div 10)"
        and last: "''0123456789'' ! (m mod 10) = ''0123456789'' ! (n mod 10)"
        by (subst (asm) (1 2) decimal.simps, simp)+
      from "1.IH" [OF large eq] have "m div 10 = n div 10" .
      moreover from last have "m mod 10 = n mod 10"
        by (intro digit_inj) simp_all
      ultimately show ?thesis
        by (metis div_mult_mod_eq)
    qed
  qed
qed

text \<open>
  Claim C8. Whenever the origin answers with a response that is not successful, the promise
  of \<^verbatim>\<open>responseProvider\<close> is rejected with the reason \<^verbatim>\<open>failed sub-request: \<close> followed by
  the origin's status code, whatever the leak flag is.
\<close>

theorem origin_failure_rejects_with_status:
  assumes "knownKeyStage pf (parsedBody request) = Inr (calls, knownKey)"
    and "httpRequest pf (originCall pf request (parsedBody request) knownKey) = Inr originResponse"
    and "\<not> ok originResponse"
  shows "snd (responseProvider pf request) =
           Inl (Rejected (''failed sub-request: '' @ decimal (status originResponse)))"
  using assms by (simp add: responseProvider_after_stage decide_def)

text \<open>
  The third scenario of the specification: no parsable body, origin status 503.
\<close>

theorem origin_failure_rejects_with_status_witness:
  "knownKeyStage scenarioOriginDown (parsedBody (loginRequest None)) = Inr ([], Some (JBool False))
   \<and> snd (responseProvider scenarioOriginDown (loginRequest None))
     = Inl (Rejected ''failed sub-request: 503'')"
proof -
  let ?rq = "loginRequest None"
  let ?origin = "\<lparr> ok = False, status = 503, resp_headers = [''content-type'' \<mapsto> [Some ''text/plain'']],
                    resp_body = [], resp_json = None \<rparr>"
  have body: "parsedBody ?rq = JNull"
    by (simp add: parsedBody_def loginRequest_def)
  have stage: "knownKeyStage scenarioOriginDown (parsedBody ?rq) = Inr ([], Some (JBool False))"
    unfolding body by (simp add: knownKeyStage_invalid bodyIsValid_null)
  have origin: "httpRequest scenarioOriginDown
                  (originCall scenarioOriginDown ?rq (parsedBody ?rq) (Some (JBool False))) = Inr ?origin"
    unfolding scenarioOriginDown_def by (simp add: scenario_origin reply_def)
  have failed: "\<not> ok ?origin"
    by simp
  have digits: "decimal 503 = ''503''"
    by (simp add: decimal.simps)
  from origin_failure_rejects_with_status [OF stage origin failed] stage
  show ?thesis
    by (simp add: digits)
qed

section \<open>The relayed body\<close>

text \<open>
  Claim C10. When \<^verbatim>\<open>request.json()\<close> rejects (the body is absent or is not JSON), the run
  makes one call, to the origin, and the body of that call is the four characters
  \<^verbatim>\<open>null\<close>: the text \<^verbatim>\<open>JSON.stringify\<close> gives for the \<^verbatim>\<open>null\<close> that replaced the body.
\<close>

theorem unparsable_body_relayed_as_null:
  assumes "req_json request = None"
  shows "fst (responseProvider pf request) = [originCall pf request JNull (Some (JBool False))]
       \<and> out_url (originCall pf request JNull (Some (JBool False))) = ORIGIN_URL
       \<and> out_body (originCall pf request JNull (Some (JBool False))) = Some ''null''"
proof -
  from assms have body: "parsedBody request = JNull"
    by (simp add: parsedBody_def)
  have "knownKeyStage pf (parsedBody request) = Inr ([], Some (JBool False))"
    unfolding body by (simp add: knownKeyStage_invalid bodyIsValid_null)
  from responseProvider_after_stage [OF this] show ?thesis
    by (simp add: body originCall_def)
qed

theorem unparsable_body_relayed_as_null_witness:
  "req_json (loginRequest None) = None
   \<and> map out_body (fst (responseProvider scenarioNoHit (loginRequest None))) = [Some ''null'']
   \<and> map out_url (fst (responseProvider scenarioNoHit (loginRequest None))) = [ORIGIN_URL]"
proof -
  have absent: "req_json (loginRequest None) = None"
    by (simp add: loginRequest_def)
  from unparsable_body_relayed_as_null [OF absent, of scenarioNoHit] absent
  show ?thesis
    by simp
qed

section \<open>Failures of the key generator\<close>

text \<open>
  \<^verbatim>\<open>getKeyFromKeyGenerator\<close> returns a string exactly when the call succeeds with a JSON
  reply whose \<^verbatim>\<open>key\<close> is that string; in every other case it returns \<^verbatim>\<open>null\<close>.
\<close>

lemma getKeyFromKeyGenerator_Some_iff:
  "snd (getKeyFromKeyGenerator pf requestBody) = Some k \<longleftrightarrow>
     (\<exists>result response.
        httpRequest pf (keyGeneratorCall pf requestBody) = Inr result \<and> ok result
        \<and> resp_json result = Some response \<and> getProp response KEY = Inr (Some (JStr k)))"
  by (auto simp: getKeyFromKeyGenerator_def split: sum.splits option.splits json.splits)

text \<open>
  Claim C5. Whenever the call of the key generator fails (the call itself fails, the status
  is not a success, the reply is not JSON, or the reply has no \<^verbatim>\<open>key\<close> field),
  \<^verbatim>\<open>getKeyFromKeyGenerator\<close> returns \<^verbatim>\<open>null\<close>; and when that call was made for a valid body,
  the run goes on: it calls the origin next, with the leak flag false and without a lookup,
  and its result is decided from the origin's answer.
\<close>

theorem key_generator_failure_is_absorbed:
  assumes failed: "keyGeneratorFailed (httpRequest pf (keyGeneratorCall pf requestBody))"
  shows "snd (getKeyFromKeyGenerator pf requestBody) = None
       \<and> (bodyIsValid pf (parsedBody request) = Inr True
            \<and> getProp (parsedBody request) UNAME = Inr uname
            \<and> getProp (parsedBody request) PASSWD = Inr passwd
            \<and> requestBody = JObj (objectLiteral [(''uname'', uname), (''passwd'', passwd)])
          \<longrightarrow> responseProvider pf request =
                ([keyGeneratorCall pf requestBody,
                  originCall pf request (parsedBody request) (Some (JBool False))],
                 (case httpRequest pf (originCall pf request (parsedBody request) (Some (JBool False))) of
                    Inl e \<Rightarrow> Inl e
                  | Inr originResponse \<Rightarrow> decide (Some (JBool False)) originResponse)))"
proof -
  have noKey: "snd (getKeyFromKeyGenerator pf requestBody) = None"
  proof (cases "httpRequest pf (keyGeneratorCall pf requestBody)")
    case (Inl error)
    then show ?thesis
      by (simp add: getKeyFromKeyGenerator_def)
  next
    case (Inr result)
    with failed show ?thesis
      by (auto simp: getKeyFromKeyGenerator_def
               split: if_splits option.splits sum.splits json.splits)
  qed
  have calls: "fst (getKeyFromKeyGenerator pf requestBody) = [keyGeneratorCall pf requestBody]"
    by (simp add: getKeyFromKeyGenerator_def)
  {
    assume valid: "bodyIsValid pf (parsedBody request) = Inr True"
      and uname: "getProp (parsedBody request) UNAME = Inr uname"
      and passwd: "getProp (parsedBody request) PASSWD = Inr passwd"
      and built: "requestBody = JObj (objectLiteral [(''uname'', uname), (''passwd'', passwd)])"
    have "knownKeyStage pf (parsedBody request)
            = Inr ([keyGeneratorCall pf requestBody], Some (JBool False))"
      using valid uname passwd noKey calls
      by (simp add: knownKeyStage_def Let_def lookupStage_def built [symmetric])
    from responseProvider_after_stage [OF this]
    have "responseProvider pf request =
            ([keyGeneratorCall pf requestBody,
              originCall pf request (parsedBody request) (Some (JBool False))],
             (case httpRequest pf (originCall pf request (parsedBody request) (Some (JBool False))) of
                Inl e \<Rightarrow> Inl e
              | Inr originResponse \<Rightarrow> decide (Some (JBool False)) originResponse))"
      by simp
  }
  with noKey show ?thesis
    by blast
qed

text \<open>
  The key generator answers 500 to valid credentials: two calls are made, to the key
  generator and to the origin, and the origin's response is passed through.
\<close>

theorem key_generator_failure_is_absorbed_witness:
  "keyGeneratorFailed (httpRequest scenarioGeneratorDown
       (keyGeneratorCall scenarioGeneratorDown (JObj [(''uname'', JStr ''ab''), (''passwd'', JStr ''abc'')])))
   \<and> bodyIsValid scenarioGeneratorDown (credentials ''ab'' ''abc'') = Inr True
   \<and> snd (getKeyFromKeyGenerator scenarioGeneratorDown
             (JObj [(''uname'', JStr ''ab''), (''passwd'', JStr ''abc'')])) = None
   \<and> map out_url (fst (responseProvider scenarioGeneratorDown (loginRequest (Some (credentials ''ab'' ''abc'')))))
       = [KEYGENERATOR_URL, ORIGIN_URL]
   \<and> snd (responseProvider scenarioGeneratorDown (loginRequest (Some (credentials ''ab'' ''abc''))))
       = Inr \<lparr> res_status = 200, res_headers = [''content-type'' \<mapsto> [Some ''text/plain'']],
               res_body = ''OK'' \<rparr>"
proof -
  let ?pf = scenarioGeneratorDown
  let ?rq = "loginRequest (Some (credentials ''ab'' ''abc''))"
  let ?requestBody = "JObj [(''uname'', JStr ''ab''), (''passwd'', JStr ''abc'')]"
  have body: "parsedBody ?rq = credentials ''ab'' ''abc''"
    by (simp add: parsedBody_def loginRequest_def)
  have failed: "keyGeneratorFailed (httpRequest ?pf (keyGeneratorCall ?pf ?requestBody))"
    by (simp add: program_defs scenario_defs)
  have valid: "bodyIsValid ?pf (parsedBody ?rq) = Inr True"
    unfolding body by (simp add: program_defs scenario_defs)
  have uname: "getProp (parsedBody ?rq) UNAME = Inr (Some (JStr ''ab''))"
    unfolding body by (simp add: credentials_def UNAME_def)
  have passwd: "getProp (parsedBody ?rq) PASSWD = Inr (Some (JStr ''abc''))"
    unfolding body by (simp add: credentials_def PASSWD_def)
  have built: "?requestBody = JObj (objectLiteral [(''uname'', Some (JStr ''ab'')), (''passwd'', Some (JStr ''abc''))])"
    by simp
  have origin: "httpRequest ?pf (originCall ?pf ?rq (parsedBody ?rq) (Some (JBool False)))
                  = reply 200 ''OK'' None"
    unfolding scenarioGeneratorDown_def by (simp add: scenario_origin)
  from key_generator_failure_is_absorbed [OF failed, of ?rq "Some (JStr ''ab'')" "Some (JStr ''abc'')"]
    valid uname passwd built
  have key: "snd (getKeyFromKeyGenerator ?pf ?requestBody) = None"
    and run: "responseProvider ?pf ?rq =
           ([keyGeneratorCall ?pf ?requestBody, originCall ?pf ?rq (parsedBody ?rq) (Some (JBool False))],
            (case httpRequest ?pf (originCall ?pf ?rq (parsedBody ?rq) (Some (JBool False))) of
               Inl e \<Rightarrow> Inl e
             | Inr originResponse \<Rightarrow> decide (Some (JBool False)) originResponse))"
    by blast+
  from run have result: "snd (responseProvider ?pf ?rq)
                           = decide (Some (JBool False)) (projr (reply 200 ''OK'' None))"
    by (simp add: origin reply_def)
  from run have urls: "map out_url (fst (responseProvider ?pf ?rq)) = [KEYGENERATOR_URL, ORIGIN_URL]"
    by (simp add: keyGeneratorCall_def originCall_def)
  have "decide (Some (JBool False)) (projr (reply 200 ''OK'' None))
          = Inr \<lparr> res_status = 200, res_headers = [''content-type'' \<mapsto> [Some ''text/plain'']],
                  res_body = ''OK'' \<rparr>"
    by (simp add: decide_def reply_def)
  with key result urls failed valid show ?thesis
    by (simp add: body)
qed

section \<open>The relayed headers\<close>

text \<open>
  \<^verbatim>\<open>delete\<close> removes a property by its exact name, so the filter removes the thirteen
  names as \<open>headersToRemove\<close> spells them, and nothing else.
\<close>

lemma fold_delete_apply:
  "fold (\<lambda>element hs. hs(element := None)) names requestHeaders n
     = (if n \<in> set names then None else requestHeaders n)"
  by (induction names arbitrary: requestHeaders) auto

lemma removeHeaders_apply:
  "removeHeaders requestHeaders n = (if n \<in> set headersToRemove then None else requestHeaders n)"
  by (simp add: removeHeaders_def fold_delete_apply)

lemma hit_header_is_set: "relayedHeaders requestHeaders hit HIT_HEADER = Some [hit]"
  by (simp add: relayedHeaders_def)

lemma hit_header_of_boolean:
  "stringifyVal pf (Some (JBool b)) = Some (if b then ''true'' else ''false'')"
  by (simp add: stringifyVal_def)

lemma lowerCase_Proxy_Authenticate: "lowerCase ''Proxy-Authenticate'' = ''proxy-authenticate''"
  by (simp add: lowerCase_def lowerChar_def)

lemma headersToRemove_names:
  "n \<in> set headersToRemove \<longleftrightarrow>
     n = ''Proxy-Authenticate''
     \<or> n \<in> {''host'', ''content-length'', ''transfer-encoding'', ''connection'', ''vary'',
              ''accept-encoding'', ''content-encoding'', ''keep-alive'', ''proxy-authorization'',
              ''te'', ''trailers'', ''upgrade''}"
  unfolding headersToRemove_def
  by (simp only: set_simps insert_iff empty_iff disj_ac simp_thms)

text \<open>
  Removal is by exact name: the relayed header object has no entry under any of the twelve
  names that the list spells in lower case, and an entry under any other name is relayed
  unchanged, apart from \<^verbatim>\<open>x-nomoreleaks-hit\<close>, which the program sets itself, and apart from
  the thirteenth name, which the list spells \<^verbatim>\<open>Proxy-Authenticate\<close>.
\<close>

lemma relayedHeaders_by_exact_name:
  "(n \<in> {''host'', ''content-length'', ''transfer-encoding'', ''connection'', ''vary'',
          ''accept-encoding'', ''content-encoding'', ''keep-alive'', ''proxy-authorization'',
          ''te'', ''trailers'', ''upgrade''}
      \<longrightarrow> relayedHeaders requestHeaders hit n = None)
   \<and> (n \<notin> {''host'', ''content-length'', ''transfer-encoding'', ''connection'', ''vary'',
            ''accept-encoding'', ''content-encoding'', ''keep-alive'', ''proxy-authorization'',
            ''te'', ''trailers'', ''upgrade''}
        \<and> lowerCase n \<noteq> ''proxy-authenticate'' \<and> n \<noteq> HIT_HEADER
      \<longrightarrow> relayedHeaders requestHeaders hit n = requestHeaders n)"
  (is "(n \<in> ?lower \<longrightarrow> _) \<and> _")
proof -
  have removed: "relayedHeaders requestHeaders hit n = None"
    if "n \<in> {''host'', ''content-length'', ''transfer-encoding'', ''connection'', ''vary'',
              ''accept-encoding'', ''content-encoding'', ''keep-alive'', ''proxy-authorization'',
              ''te'', ''trailers'', ''upgrade''}"
  proof -
    from that have "n \<noteq> HIT_HEADER"
      by (auto simp: HIT_HEADER_def)
    moreover from that have "n \<in> set headersToRemove"
      by (simp only: headersToRemove_names simp_thms)
    ultimately show ?thesis
      by (simp add: relayedHeaders_def removeHeaders_apply)
  qed
  have kept: "relayedHeaders requestHeaders hit n = requestHeaders n"
    if other: "n \<notin> {''host'', ''content-length'', ''transfer-encoding'', ''connection'', ''vary'',
              ''accept-encoding'', ''content-encoding'', ''keep-alive'', ''proxy-authorization'',
              ''te'', ''trailers'', ''upgrade''}"
      and slip: "lowerCase n \<noteq> ''proxy-authenticate''" and hit: "n \<noteq> HIT_HEADER"
  proof -
    have "n \<noteq> ''Proxy-Authenticate''"
    proof
      assume "n = ''Proxy-Authenticate''"
      then have "lowerCase n = ''proxy-authenticate''"
        by (simp only: lowerCase_Proxy_Authenticate)
      with slip show False
        by (rule notE)
    qed
    with other have "n \<notin> set headersToRemove"
      by (simp only: headersToRemove_names simp_thms not_False_eq_True)
    with hit show ?thesis
      by (simp add: relayedHeaders_def removeHeaders_apply)
  qed
  show ?thesis
  proof (intro conjI impI)
    assume "n \<in> ?lower"
    then show "relayedHeaders requestHeaders hit n = None"
      by (rule removed)
  next
    assume "n \<notin> ?lower \<and> lowerCase n \<noteq> ''proxy-authenticate'' \<and> n \<noteq> HIT_HEADER"
    then show "relayedHeaders requestHeaders hit n = requestHeaders n"
      by (intro kept) (elim conjE, assumption)+
  qed
qed

text \<open>
  On a header object whose names are all in lower case, the form in which the platform is
  documented to deliver them, the program and the filter of the specification agree at
  every name but \<^verbatim>\<open>proxy-authenticate\<close> (and the name the program sets itself).
\<close>

lemma denyListOfSpec_names:
  "n \<in> set denyListOfSpec \<longleftrightarrow>
     n = ''proxy-authenticate''
     \<or> n \<in> {''host'', ''content-length'', ''transfer-encoding'', ''connection'', ''vary'',
              ''accept-encoding'', ''content-encoding'', ''keep-alive'', ''proxy-authorization'',
              ''te'', ''trailers'', ''upgrade''}"
  unfolding denyListOfSpec_def
  by (simp only: set_simps insert_iff empty_iff disj_ac simp_thms)

lemma lower_case_keys_differ_only_at_proxy_authenticate:
  assumes lower: "requestHeaders n \<noteq> None \<Longrightarrow> lowerCase n = n"
    and slip: "n \<noteq> ''proxy-authenticate''" and hit: "n \<noteq> HIT_HEADER"
  shows "relayedHeaders requestHeaders hit' n = filteredAsSpecified requestHeaders n"
proof (cases "requestHeaders n")
  case None
  with hit show ?thesis
    by (simp add: relayedHeaders_def removeHeaders_apply filteredAsSpecified_def)
next
  case (Some vs)
  with lower have fixed: "lowerCase n = n"
    by simp
  have "n \<noteq> ''Proxy-Authenticate''"
  proof
    assume "n = ''Proxy-Authenticate''"
    with fixed have "''proxy-authenticate'' = ''Proxy-Authenticate''"
      by (simp only: lowerCase_Proxy_Authenticate)
    then show False
      by simp
  qed
  with slip have "n \<in> set headersToRemove \<longleftrightarrow> n \<in> set denyListOfSpec"
    by (simp only: headersToRemove_names denyListOfSpec_names simp_thms)
  with hit show ?thesis
    by (simp add: relayedHeaders_def removeHeaders_apply filteredAsSpecified_def fixed)
qed

text \<open>
  Claim C4 says that the headers relayed to the origin are the inbound headers without the
  thirteen names of the deny-list, \<^verbatim>\<open>proxy-authenticate\<close> among them, whatever their casing.
  The list of the program spells that one name \<^verbatim>\<open>Proxy-Authenticate\<close>, unlike its twelve
  neighbours, and \<^verbatim>\<open>delete\<close> matches the exact name. For an inbound request with the headers
  \<^verbatim>\<open>host\<close> and \<^verbatim>\<open>proxy-authenticate\<close> (and no body) the one call of the run, to the origin,
  carries no \<^verbatim>\<open>host\<close> but still carries \<^verbatim>\<open>proxy-authenticate\<close>, which the filter of the
  specification removes.
\<close>

theorem proxy_authenticate_header_is_relayed:
  "fst (responseProvider pf (proxyRequest m)) = [originCall pf (proxyRequest m) JNull (Some (JBool False))]
   \<and> map (\<lambda>rq. case out_headers rq of None \<Rightarrow> None | Some hs \<Rightarrow> hs ''proxy-authenticate'')
        (fst (responseProvider pf (proxyRequest m))) = [Some [Some ''Basic'']]
   \<and> map (\<lambda>rq. case out_headers rq of None \<Rightarrow> None | Some hs \<Rightarrow> hs ''host'')
        (fst (responseProvider pf (proxyRequest m))) = [None]
   \<and> filteredAsSpecified (req_headers (proxyRequest m)) ''proxy-authenticate'' = None"
proof -
  have absent: "req_json (proxyRequest m) = None"
    by (simp add: proxyRequest_def)
  then have body: "parsedBody (proxyRequest m) = JNull"
    by (simp add: parsedBody_def)
  have "knownKeyStage pf (parsedBody (proxyRequest m)) = Inr ([], Some (JBool False))"
    unfolding body by (simp add: knownKeyStage_invalid bodyIsValid_null)
  from responseProvider_after_stage [OF this]
  have calls: "fst (responseProvider pf (proxyRequest m))
                 = [originCall pf (proxyRequest m) JNull (Some (JBool False))]"
    by (simp add: body)
  have kept: "relayedHeaders (req_headers (proxyRequest m)) hit ''proxy-authenticate'' = Some [Some ''Basic'']" for hit
    by (simp add: proxyRequest_def relayedHeaders_def removeHeaders_def headersToRemove_def HIT_HEADER_def)
  have removed: "relayedHeaders (req_headers (proxyRequest m)) hit ''host'' = None" for hit
    by (simp add: proxyRequest_def relayedHeaders_def removeHeaders_def headersToRemove_def HIT_HEADER_def)
  have spec: "filteredAsSpecified (req_headers (proxyRequest m)) ''proxy-authenticate'' = None"
    by (simp add: filteredAsSpecified_def denyListOfSpec_def lowerCase_def lowerChar_def)
  from calls kept removed spec show ?thesis
    by (simp add: originCall_def)
qed

section \<open>Validation of the body\<close>

text \<open>
  On an object whose two fields are strings the validation computes the length test of the
  specification; a missing field or a short user name make it false without an exception.
  Then the origin is the only call of the run. When the validation throws, the run ends
  before any call.
\<close>

lemma bodyIsValid_strings:
  assumes "map_of kvs ''username'' = Some (JStr u)" and "map_of kvs ''password'' = Some (JStr p)"
  shows "bodyIsValid pf (JObj kvs) = Inr (1 < length u \<and> 2 < length p)"
  using assms
  by (cases "1 < length u")
     (simp_all add: bodyIsValid_def hasCredentials_def hasBody_def lengthGreater_def UNAME_def PASSWD_def)

lemma bodyIsValid_missing_field:
  assumes "map_of kvs ''username'' = None \<or> map_of kvs ''password'' = None"
  shows "bodyIsValid pf (JObj kvs) = Inr False"
  using assms
  by (cases "map_of kvs ''username''")
     (auto simp: bodyIsValid_def hasCredentials_def hasBody_def UNAME_def PASSWD_def)

lemma bodyIsValid_short_username:
  assumes "map_of kvs ''username'' = Some (JStr u)" and "length u \<le> 1"
  shows "bodyIsValid pf (JObj kvs) = Inr False"
  using assms
  by (cases "map_of kvs ''password''")
     (auto simp: bodyIsValid_def hasCredentials_def hasBody_def lengthGreater_def UNAME_def PASSWD_def)

lemma invalid_body_calls_origin_only:
  assumes "bodyIsValid pf (parsedBody request) = Inr False"
  shows "fst (responseProvider pf request)
           = [originCall pf request (parsedBody request) (Some (JBool False))]"
  using responseProvider_after_stage [OF knownKeyStage_invalid [OF assms]] by simp

lemma validation_error_makes_no_call:
  assumes "bodyIsValid pf (parsedBody request) = Inl e"
  shows "responseProvider pf request = ([], Inl e)"
  using responseProvider_stage_error [OF knownKeyStage_error [OF assms]] .

text \<open>
  Unless the validation yields true, no call of the run goes anywhere but to the origin.
\<close>

lemma no_key_calls_unless_valid:
  assumes "bodyIsValid pf (parsedBody request) \<noteq> Inr True"
  shows "list_all (\<lambda>rq. out_url rq = ORIGIN_URL) (fst (responseProvider pf request))"
proof (cases "bodyIsValid pf (parsedBody request)")
  case (Inl e)
  then show ?thesis
    by (simp add: validation_error_makes_no_call)
next
  case (Inr valid)
  with assms have "bodyIsValid pf (parsedBody request) = Inr False"
    by simp
  then show ?thesis
    by (simp add: invalid_body_calls_origin_only originCall_def)
qed

text \<open>
  Claim C9 says that validation never raises, also for a body that parses to a number, a
  string or a boolean. The program evaluates \<^verbatim>\<open>UNAME in body\<close> on such a body, which throws
  a \<^verbatim>\<open>TypeError\<close>; nothing catches it, so the promise of \<^verbatim>\<open>responseProvider\<close> is
  rejected before any call is made. Evaluated for the bodies \<^verbatim>\<open>5\<close>, \<^verbatim>\<open>"hello"\<close> and \<^verbatim>\<open>true\<close>.
\<close>

theorem validation_raises_on_primitive_body:
  "bodyIsValid pf (JNum 5) = Inl TypeError
   \<and> bodyIsValid pf (JStr ''hello'') = Inl TypeError
   \<and> bodyIsValid pf (JBool True) = Inl TypeError
   \<and> responseProvider pf \<lparr> req_method = m, req_headers = hs, req_json = Some (JNum 5) \<rparr>
       = ([], Inl TypeError)"
  by (simp add: program_defs)

text \<open>
  Claim C2 says that a body with a password of length at most 2 leaves the leak flag false,
  reaches neither the key generator nor the lookup, and that only the origin call is made.
  For the body \<^verbatim>\<open>{"username": null, "password": "ab"}\<close> the program evaluates
  \<^verbatim>\<open>body[UNAME].length\<close> on \<^verbatim>\<open>null\<close>, which throws: no call is made at all, the origin call
  included.
\<close>

theorem short_password_null_username_makes_no_call:
  "bodyIsValid pf (JObj [(''username'', JNull), (''password'', JStr ''ab'')]) = Inl TypeError
   \<and> responseProvider pf
        \<lparr> req_method = m, req_headers = hs,
          req_json = Some (JObj [(''username'', JNull), (''password'', JStr ''ab'')]) \<rparr>
       = ([], Inl TypeError)"
  by (simp add: program_defs)

section \<open>The result of the lookup\<close>

text \<open>
  The lookup client returns \<^verbatim>\<open>false\<close> when the call fails, when the status is not a success
  and when the reply is not JSON.
\<close>

lemma keyExists_false_on_failed_call:
  assumes "httpRequest pf (keyExistsCall pf bindvars) = Inl e
           \<or> (\<exists>result. httpRequest pf (keyExistsCall pf bindvars) = Inr result
                 \<and> (\<not> ok result \<or> resp_json result = None))"
  shows "snd (keyExists pf bindvars) = Some (JBool False)"
  using assms by (auto simp: keyExists_def)

text \<open>
  Claim C3 says that \<^verbatim>\<open>keyExists\<close> returns \<^verbatim>\<open>false\<close> also when the first element of the reply
  lacks the boolean \<^verbatim>\<open>result\<close> field. The program returns \<^verbatim>\<open>response[0]["result"]\<close>
  unchecked: for the reply \<^verbatim>\<open>[{}]\<close> it returns \<^verbatim>\<open>undefined\<close>, and for the reply
  \<^verbatim>\<open>[{"result":"no"}]\<close> it returns the string \<^verbatim>\<open>no\<close>, which is truthy, so that the warning
  page is served when the origin answers 200.
\<close>

theorem keyExists_returns_unchecked_result:
  "snd (keyExists (scenarioPlatform keyReply (lookupReply (JObj [])) origin) bindvars) = None
   \<and> snd (keyExists (scenarioPlatform keyReply (lookupReply (JObj [(''result'', JStr ''no'')])) origin) bindvars)
       = Some (JStr ''no'')
   \<and> snd (responseProvider
            (scenarioPlatform keyReply (lookupReply (JObj [(''result'', JStr ''no'')])) (reply 200 ''OK'' None))
            (loginRequest (Some (credentials ''ab'' ''abc''))))
       = Inr warningPage"
  by (simp add: program_defs scenario_defs)

text \<open>
  Claim C6 says that the header \<^verbatim>\<open>x-nomoreleaks-hit\<close> of the relayed request is always the
  string \<^verbatim>\<open>true\<close> or \<^verbatim>\<open>false\<close>. The program stores \<^verbatim>\<open>JSON.stringify(knowKey)\<close>, and
  \<^verbatim>\<open>knowKey\<close> is what the lookup returned: for the reply \<^verbatim>\<open>[{"result":null}]\<close> the header of
  the third call, to the origin, is the string \<^verbatim>\<open>null\<close>; for the reply \<^verbatim>\<open>[{}]\<close> it is
  \<^verbatim>\<open>undefined\<close>.
\<close>

theorem hit_header_carries_unchecked_result:
  "map (\<lambda>rq. case out_headers rq of None \<Rightarrow> None | Some hs \<Rightarrow> hs HIT_HEADER)
     (fst (responseProvider
             (scenarioPlatform keyReply (lookupReply (JObj [(''result'', JNull)])) (reply 200 ''OK'' None))
             (loginRequest (Some (credentials ''ab'' ''abc'')))))
     = [None, None, Some [Some ''null'']]
   \<and> map (\<lambda>rq. case out_headers rq of None \<Rightarrow> None | Some hs \<Rightarrow> hs HIT_HEADER)
     (fst (responseProvider
             (scenarioPlatform keyReply (lookupReply (JObj [])) (reply 200 ''OK'' None))
             (loginRequest (Some (credentials ''ab'' ''abc'')))))
     = [None, None, Some [None]]"
  by (simp add: program_defs scenario_defs relayedHeaders_def)

end
